theory Spec2Isabelle
  imports Complex_Main "HOL-Library.Char_ord" "HOL-Library.List_Lexorder"
    "HOL-Library.Product_Lexorder"
begin

section \<open>Time: datetime values as app.py uses them\<close>

text \<open>
  The dashboard handles Python \<open>datetime\<close> objects. A datetime is modelled by its wall
  clock, counted in microseconds (the resolution of \<open>datetime\<close>) from midnight of the
  proleptic Gregorian ordinal day 0, together with its \<open>tzinfo\<close>. The fields
  \<open>.date()\<close>, \<open>.hour\<close>, \<open>.minute\<close>, \<open>.second\<close> and \<open>.microsecond\<close> are read off the
  wall clock; a \<open>date\<close> is the ordinal that \<open>date.toordinal()\<close> returns. The limits of
  \<open>datetime\<close> (years 1 to 9999) are not part of the model outside the parser.
\<close>

abbreviation US_PER_SECOND :: int where "US_PER_SECOND \<equiv> 1000000"
abbreviation US_PER_MINUTE :: int where "US_PER_MINUTE \<equiv> 60000000"
abbreviation US_PER_HOUR :: int where "US_PER_HOUR \<equiv> 3600000000"
abbreviation US_PER_DAY :: int where "US_PER_DAY \<equiv> 86400000000"

text \<open>
  The time zones that occur: \<open>UTC = timezone.utc\<close> (and dateutil's \<open>tz.UTC\<close>),
  \<open>PK_TZ = ZoneInfo("Asia/Karachi")\<close>, and dateutil's \<open>tzoffset(None, seconds)\<close> for a
  string that carries another offset.
\<close>

datatype tzinfo = UTC | PK_TZ | tzoffset int

text \<open>
  Modelled from the spec: the zone rules of \<open>Asia/Karachi\<close> come from the system's time
  zone database, not from app.py. The spec takes Pakistan's zone as fixed-offset; the
  offset of Pakistan Standard Time is five hours east of UTC.
\<close>

fun utcoffset :: "tzinfo \<Rightarrow> int" where
  "utcoffset UTC = 0"
| "utcoffset PK_TZ = 5 * US_PER_HOUR"
| "utcoffset (tzoffset s) = s * US_PER_SECOND"

record datetime =
  wall :: int
  tzinfo :: "tzinfo option"

type_synonym date = int

definition date_of :: "datetime \<Rightarrow> date" where
  "date_of dt = wall dt div US_PER_DAY"

definition hour :: "datetime \<Rightarrow> int" where
  "hour dt = (wall dt div US_PER_HOUR) mod 24"

definition minute :: "datetime \<Rightarrow> int" where
  "minute dt = (wall dt div US_PER_MINUTE) mod 60"

definition second :: "datetime \<Rightarrow> int" where
  "second dt = (wall dt div US_PER_SECOND) mod 60"

definition microsecond :: "datetime \<Rightarrow> int" where
  "microsecond dt = wall dt mod US_PER_SECOND"

text \<open>
  \<open>datetime(d.year, d.month, d.day, hour, minute, second, tzinfo=tz)\<close> for a date
  \<open>d\<close>: the year, month and day of \<open>d\<close> name the day \<open>d\<close> again; the microsecond
  defaults to 0.
\<close>

definition mk_datetime :: "date \<Rightarrow> int \<Rightarrow> int \<Rightarrow> int \<Rightarrow> tzinfo option \<Rightarrow> datetime" where
  "mk_datetime d h mi s tz =
     \<lparr>wall = d * US_PER_DAY + h * US_PER_HOUR + mi * US_PER_MINUTE + s * US_PER_SECOND,
      tzinfo = tz\<rparr>"

text \<open>
  The instant of a datetime on the UTC scale is its wall clock minus its offset. A naive
  datetime carries no offset: Python's \<open>astimezone\<close> reads it on the local zone of the
  host, which the program does not fix; \<open>system_utcoffset\<close> stands for the offset of
  that zone and is left open. The program attaches UTC to a naive value before it converts
  it (\<open>to_dt_utc\<close>) and compares aware values only.
\<close>

definition system_utcoffset :: int where
  "system_utcoffset = undefined"

definition offset_of :: "datetime \<Rightarrow> int" where
  "offset_of dt =
     (case tzinfo dt of None \<Rightarrow> system_utcoffset | Some tz \<Rightarrow> utcoffset tz)"

definition utc_us :: "datetime \<Rightarrow> int" where
  "utc_us dt = wall dt - offset_of dt"

text \<open>\<open>dt.astimezone(tz)\<close>: the same instant, on the wall clock of \<open>tz\<close>.\<close>

definition astimezone :: "datetime \<Rightarrow> tzinfo \<Rightarrow> datetime" where
  "astimezone dt tz = \<lparr>wall = utc_us dt + utcoffset tz, tzinfo = Some tz\<rparr>"

text \<open>\<open>dt.replace(tzinfo=tz)\<close>: the same wall clock, labelled with \<open>tz\<close>.\<close>

definition replace_tzinfo :: "datetime \<Rightarrow> tzinfo \<Rightarrow> datetime" where
  "replace_tzinfo dt tz = dt\<lparr>tzinfo := Some tz\<rparr>"

text \<open>\<open>timedelta(hours=n)\<close> and \<open>dt + timedelta\<close>, which keeps the \<open>tzinfo\<close>.\<close>

definition timedelta_hours :: "int \<Rightarrow> int" where
  "timedelta_hours n = n * US_PER_HOUR"

definition dt_add :: "datetime \<Rightarrow> int \<Rightarrow> datetime" where
  "dt_add dt td = dt\<lparr>wall := wall dt + td\<rparr>"

text \<open>
  Comparison of aware datetimes (\<open><\<close>, \<open>>\<close>, and the \<open>==\<close> of the pandas column against
  \<open>picked_utc\<close>) is comparison of their instants.
\<close>

definition dt_lt :: "datetime \<Rightarrow> datetime \<Rightarrow> bool" where
  "dt_lt a b = (utc_us a < utc_us b)"

definition dt_gt :: "datetime \<Rightarrow> datetime \<Rightarrow> bool" where
  "dt_gt a b = (utc_us a > utc_us b)"

definition dt_eq :: "datetime \<Rightarrow> datetime \<Rightarrow> bool" where
  "dt_eq a b = (utc_us a = utc_us b)"

subsection \<open>The libraries\<close>

text \<open>
  Two functions of the libraries decide what the program does with the text it reads, and
  neither is part of app.py: \<open>dateparser.isoparse\<close> of dateutil, and the reading of a
  string as a number inside \<open>pd.to_numeric\<close>. They are parameters of the model:
  \<open>isoparse L s\<close> is the datetime that \<open>isoparse\<close> returns on \<open>s\<close>, naive or aware, and
  \<open>None\<close> where it raises \<open>ValueError\<close>; \<open>numeric_text L s\<close> is the number that
  \<open>pd.to_numeric\<close> reads from the string \<open>s\<close>, and \<open>None\<close> where it reads none. What is
  proved of the program below holds for every such pair of functions.
\<close>

record libraries =
  isoparse :: "string \<Rightarrow> datetime option"
  numeric_text :: "string \<Rightarrow> real option"

text \<open>
  \<open>to_dt_utc\<close> (app.py, lines 47 to 52): parse, attach UTC to a naive result, convert to
  UTC.
\<close>

definition to_dt_utc :: "libraries \<Rightarrow> string \<Rightarrow> datetime option" where
  "to_dt_utc L iso_str =
     (case isoparse L iso_str of
        None \<Rightarrow> None
      | Some dt \<Rightarrow>
          Some (astimezone (if tzinfo dt = None then replace_tzinfo dt UTC else dt) UTC))"

subsection \<open>A parser to compute with\<close>

text \<open>
  To run the program on examples, \<open>iso_extended\<close> reads the layout of the stored
  documents as dateutil does: the extended ISO-8601 form with seconds,
  \<open>YYYY-MM-DD?HH:MM:SS\<close> (any single character separates date and time), followed by
  nothing (a naive datetime), by \<open>Z\<close>, or by an offset \<open>+HH:MM\<close>, \<open>-HH:MM\<close>,
  \<open>+HHMM\<close>, \<open>-HHMM\<close>, \<open>+HH\<close> or \<open>-HH\<close>. On every other string it returns
  \<open>None\<close>, also on the further layouts that dateutil accepts; it serves the examples
  only. \<open>digits_text\<close> reads a string of decimal digits as a number, and no other string.
\<close>

definition digit_val :: "char \<Rightarrow> int option" where
  "digit_val c =
     (let n = (of_char c :: nat) in if 48 \<le> n \<and> n \<le> 57 then Some (int n - 48) else None)"

fun parse_digits :: "int \<Rightarrow> string \<Rightarrow> int option" where
  "parse_digits acc [] = Some acc"
| "parse_digits acc (c # cs) =
     (case digit_val c of None \<Rightarrow> None | Some d \<Rightarrow> parse_digits (10 * acc + d) cs)"

definition parse_num :: "string \<Rightarrow> int option" where
  "parse_num s = (if s = [] then None else parse_digits 0 s)"

text \<open>The calendar arithmetic of CPython's \<open>datetime\<close> module.\<close>

definition is_leap :: "int \<Rightarrow> bool" where
  "is_leap y = (y mod 4 = 0 \<and> (y mod 100 \<noteq> 0 \<or> y mod 400 = 0))"

definition days_before_year :: "int \<Rightarrow> int" where
  "days_before_year y = (y - 1) * 365 + (y - 1) div 4 - (y - 1) div 100 + (y - 1) div 400"

definition DAYS_IN_MONTH :: "int list" where
  "DAYS_IN_MONTH = [31, 28, 31, 30, 31, 30, 31, 31, 30, 31, 30, 31]"

definition days_in_month :: "int \<Rightarrow> int \<Rightarrow> int" where
  "days_in_month y m =
     (if m = 2 \<and> is_leap y then 29 else DAYS_IN_MONTH ! nat (m - 1))"

definition days_before_month :: "int \<Rightarrow> int \<Rightarrow> int" where
  "days_before_month y m =
     sum_list (take (nat (m - 1)) DAYS_IN_MONTH) + (if m > 2 \<and> is_leap y then 1 else 0)"

definition ymd2ord :: "int \<Rightarrow> int \<Rightarrow> int \<Rightarrow> date" where
  "ymd2ord y m d = days_before_year y + days_before_month y m + d"

text \<open>The time zone part of the string: \<open>Some None\<close> is "no offset given".\<close>

definition parse_tzstr :: "string \<Rightarrow> tzinfo option option" where
  "parse_tzstr z =
     (if z = [] then Some None
      else if z = ''Z'' \<or> z = ''z'' then Some (Some UTC)
      else if length z \<notin> {3, 5, 6} then None
      else if hd z \<noteq> CHR ''-'' \<and> hd z \<noteq> CHR ''+'' then None
      else if length z = 6 \<and> z ! 3 \<noteq> CHR '':'' then None
      else
        (case (parse_num (take 2 (drop 1 z)),
               if length z = 3 then Some 0
               else parse_num (drop (if length z = 6 then 4 else 3) z)) of
           (Some h, Some m) \<Rightarrow>
             if h = 0 \<and> m = 0 then Some (Some UTC)
             else if m > 59 \<or> h > 23 then None
             else Some (Some (tzoffset ((if hd z = CHR ''-'' then -1 else 1) * (h * 60 + m) * 60)))
         | _ \<Rightarrow> None))"

definition iso_extended :: "string \<Rightarrow> datetime option" where
  "iso_extended s =
     (if length s < 19 then None
      else if s ! 4 \<noteq> CHR ''-'' \<or> s ! 7 \<noteq> CHR ''-'' \<or> s ! 13 \<noteq> CHR '':'' \<or> s ! 16 \<noteq> CHR '':''
        then None
      else
        (case (parse_num (take 4 s), parse_num (take 2 (drop 5 s)),
               parse_num (take 2 (drop 8 s)), parse_num (take 2 (drop 11 s)),
               parse_num (take 2 (drop 14 s)), parse_num (take 2 (drop 17 s)),
               parse_tzstr (drop 19 s)) of
           (Some y, Some m, Some d, Some h, Some mi, Some sec, Some tz) \<Rightarrow>
             if y < 1 \<or> m < 1 \<or> m > 12 \<or> d < 1 \<or> d > days_in_month y m
                \<or> h > 23 \<or> mi > 59 \<or> sec > 59
             then None
             else Some (mk_datetime (ymd2ord y m d) h mi sec tz)
         | _ \<Rightarrow> None))"

definition digits_text :: "string \<Rightarrow> real option" where
  "digits_text s = map_option real_of_int (parse_num s)"

definition demo_libs :: libraries where
  "demo_libs = \<lparr>isoparse = iso_extended, numeric_text = digits_text\<rparr>"

section \<open>The forecast store and the loader\<close>

text \<open>
  A value stored in a numeric field of a document: a number, a text, or null (which is
  also how a missing value reaches the data frame). A number stands for the value that the
  column of the data frame holds for it. The store orders values of different kinds as
  MongoDB does: null before every number, every number before every text; numbers by
  value, texts character by character.
\<close>

datatype stored = Null | Number real | Text string

fun bson_key :: "stored \<Rightarrow> nat \<times> real \<times> string" where
  "bson_key Null = (0, 0, [])"
| "bson_key (Number x) = (1, x, [])"
| "bson_key (Text s) = (2, 0, s)"

text \<open>
  A document of the collection \<open>aqi_forecast_karachi_next72h\<close>, with the fields the
  dashboard reads.
\<close>

record forecast_doc =
  city :: string
  base_time :: string
  horizon_hours :: stored
  target_time :: string
  predicted_aqi_us :: stored
  predicted_pm2_5 :: stored
  category :: string

text \<open>
  What \<open>MongoClient(mongo_uri)\<close> reaches: no server (the \<open>ping\<close> raises after the
  selection timeout), or the documents of the collection.
\<close>

datatype store = Unreachable | Collection "forecast_doc list"

datatype error = ServerSelectionTimeoutError | ValueError | TypeError

text \<open>
  \<open>find_one({"city": city}, sort=[("base_time", DESCENDING)])\<close>: a document of the city
  with the greatest \<open>base_time\<close>; the strings are compared as the store compares them,
  character by character.
\<close>

fun find_latest :: "forecast_doc list \<Rightarrow> forecast_doc option" where
  "find_latest [] = None"
| "find_latest (d # ds) =
     (case find_latest ds of
        None \<Rightarrow> Some d
      | Some e \<Rightarrow> if base_time d < base_time e then Some e else Some d)"

text \<open>\<open>load_latest_forecast\<close> (app.py, lines 21 to 44).\<close>

definition load_latest_forecast ::
  "store \<Rightarrow> string \<Rightarrow> error + (string option \<times> forecast_doc list)" where
  "load_latest_forecast st c =
     (case st of
        Unreachable \<Rightarrow> Inl ServerSelectionTimeoutError
      | Collection col \<Rightarrow>
          (case find_latest (filter (\<lambda>d. city d = c) col) of
             None \<Rightarrow> Inr (None, [])
           | Some latest \<Rightarrow>
               Inr (Some (base_time latest),
                    sort_key (\<lambda>d. bson_key (horizon_hours d))
                      (filter (\<lambda>d. city d = c \<and> base_time d = base_time latest) col))))"

section \<open>The data frame\<close>

text \<open>
  \<open>pd.to_numeric(column, errors="coerce")\<close> (lines 96 to 98), value by value: a number
  stays, a text becomes the number it spells, and whatever is no number becomes NaN, here
  \<open>None\<close>.
\<close>

definition to_numeric :: "libraries \<Rightarrow> stored \<Rightarrow> real option" where
  "to_numeric L v =
     (case v of Null \<Rightarrow> None | Number x \<Rightarrow> Some x | Text s \<Rightarrow> numeric_text L s)"

text \<open>
  A row of \<open>df\<close>: the document, its three numeric columns after the coercion, and the
  parsed columns \<open>target_dt_utc\<close> and \<open>target_dt_pk\<close> (lines 101 and 106). A
  \<open>target_time\<close> that does not parse raises out of \<open>main\<close>.
\<close>

record df_row =
  doc :: forecast_doc
  num_horizon_hours :: "real option"
  num_predicted_aqi_us :: "real option"
  num_predicted_pm2_5 :: "real option"
  target_dt_utc :: datetime
  target_dt_pk :: datetime

definition annotate :: "libraries \<Rightarrow> forecast_doc \<Rightarrow> df_row option" where
  "annotate L d =
     (case to_dt_utc L (target_time d) of
        None \<Rightarrow> None
      | Some t \<Rightarrow>
          Some \<lparr>doc = d,
                num_horizon_hours = to_numeric L (horizon_hours d),
                num_predicted_aqi_us = to_numeric L (predicted_aqi_us d),
                num_predicted_pm2_5 = to_numeric L (predicted_pm2_5 d),
                target_dt_utc = t, target_dt_pk = astimezone t PK_TZ\<rparr>)"

fun build_df :: "libraries \<Rightarrow> forecast_doc list \<Rightarrow> error + df_row list" where
  "build_df L [] = Inr []"
| "build_df L (d # ds) =
     (case annotate L d of
        None \<Rightarrow> Inl ValueError
      | Some r \<Rightarrow> (case build_df L ds of Inl e \<Rightarrow> Inl e | Inr rs \<Rightarrow> Inr (r # rs)))"

section \<open>Tab 1: current and worst metrics\<close>

text \<open>
  \<open>int(x)\<close> on a value of a numeric column: truncation towards zero, and \<open>ValueError\<close>
  on NaN.
\<close>

definition py_int :: "real option \<Rightarrow> error + int" where
  "py_int v =
     (case v of
        None \<Rightarrow> Inl ValueError
      | Some x \<Rightarrow> Inr (if 0 \<le> x then \<lfloor>x\<rfloor> else \<lceil>x\<rceil>))"

text \<open>
  \<open>Series.idxmax()\<close> on the default index: NaN is skipped, and the result is the
  position of the first occurrence of the maximum of the other values. The scan keeps the
  best position so far and moves only on a strictly greater value. On a column of NaN
  only there is no position: \<open>idxmax\<close> raises \<open>ValueError\<close> (older versions of pandas
  return NaN, on which \<open>df.loc\<close> of line 123 raises \<open>KeyError\<close>).
\<close>

fun scan_max :: "(nat \<times> real) option \<Rightarrow> nat \<Rightarrow> real option list \<Rightarrow> (nat \<times> real) option" where
  "scan_max best i [] = best"
| "scan_max best i (None # xs) = scan_max best (Suc i) xs"
| "scan_max None i (Some x # xs) = scan_max (Some (i, x)) (Suc i) xs"
| "scan_max (Some (bi, bv)) i (Some x # xs) =
     (if bv < x then scan_max (Some (i, x)) (Suc i) xs
      else scan_max (Some (bi, bv)) (Suc i) xs)"

definition idxmax :: "real option list \<Rightarrow> nat option" where
  "idxmax xs = map_option fst (scan_max None 0 xs)"

record metrics =
  current_aqi :: int
  current_category :: string
  worst_aqi :: int
  worst_horizon :: int
  worst_category :: string

text \<open>
  Lines 121 to 128, in the order in which they run; \<open>df\<close> is not empty here (\<open>main\<close>
  stops before on an empty batch). The two PM2.5 metrics go through \<open>float\<close> and
  \<open>round\<close>, which raise nothing on a numeric column, and are left out.
\<close>

definition tab1 :: "df_row list \<Rightarrow> error + metrics" where
  "tab1 df =
     (let current = df ! 0
      in case idxmax (map num_predicted_aqi_us df) of
           None \<Rightarrow> Inl ValueError
         | Some worst_idx \<Rightarrow>
             (let worst = df ! worst_idx
              in case py_int (num_predicted_aqi_us current) of
                   Inl e \<Rightarrow> Inl e
                 | Inr ca \<Rightarrow>
                     (case py_int (num_predicted_aqi_us worst) of
                        Inl e \<Rightarrow> Inl e
                      | Inr wa \<Rightarrow>
                          (case py_int (num_horizon_hours worst) of
                             Inl e \<Rightarrow> Inl e
                           | Inr wh \<Rightarrow>
                               Inr \<lparr>current_aqi = ca,
                                    current_category = category (doc current),
                                    worst_aqi = wa,
                                    worst_horizon = wh,
                                    worst_category = category (doc worst)\<rparr>))))"

section \<open>Tab 2: the time picker\<close>

text \<open>The allowed window (lines 177 to 181).\<close>

record window =
  min_dt_utc :: datetime
  max_dt_utc :: datetime
  min_dt_pk :: datetime
  max_dt_pk :: datetime

definition allowed_window :: "datetime \<Rightarrow> window" where
  "allowed_window base_dt_utc =
     (let lo = dt_add base_dt_utc (timedelta_hours 1);
          hi = dt_add base_dt_utc (timedelta_hours 72)
      in \<lparr>min_dt_utc = lo, max_dt_utc = hi,
          min_dt_pk = astimezone lo PK_TZ, max_dt_pk = astimezone hi PK_TZ\<rparr>)"

text \<open>
  The two widgets (lines 188 to 198) as they are configured. \<open>st.date_input\<close> and
  \<open>st.selectbox\<close> return what the user chose, or the default while the user has not
  chosen: the \<open>value\<close> of the date input, the option at \<open>index\<close> of the select box.
\<close>

record date_widget =
  dw_value :: date
  dw_min_value :: date
  dw_max_value :: date

record select_widget =
  sw_options :: "int list"
  sw_index :: int

definition date_widget_of :: "window \<Rightarrow> date_widget" where
  "date_widget_of w =
     \<lparr>dw_value = date_of (min_dt_pk w),
      dw_min_value = date_of (min_dt_pk w),
      dw_max_value = date_of (max_dt_pk w)\<rparr>"

definition hour_widget_of :: "window \<Rightarrow> select_widget" where
  "hour_widget_of w = \<lparr>sw_options = [0..23], sw_index = hour (min_dt_pk w)\<rparr>"

definition date_input :: "date_widget \<Rightarrow> date option \<Rightarrow> date" where
  "date_input dw choice = (case choice of None \<Rightarrow> dw_value dw | Some d \<Rightarrow> d)"

definition selectbox :: "select_widget \<Rightarrow> int option \<Rightarrow> int" where
  "selectbox sw choice =
     (case choice of None \<Rightarrow> sw_options sw ! nat (sw_index sw) | Some h \<Rightarrow> h)"

text \<open>The candidate (lines 200 to 205) and the guardrails (lines 208 to 213).\<close>

definition candidate_pk :: "date \<Rightarrow> int \<Rightarrow> datetime" where
  "candidate_pk picked_date picked_hour = mk_datetime picked_date picked_hour 0 0 (Some PK_TZ)"

definition clamp :: "window \<Rightarrow> datetime \<Rightarrow> datetime \<Rightarrow> datetime \<times> datetime" where
  "clamp w picked_utc picked_pk =
     (let (u1, p1) = (if dt_lt picked_utc (min_dt_utc w)
                      then (min_dt_utc w, astimezone (min_dt_utc w) PK_TZ)
                      else (picked_utc, picked_pk))
      in if dt_gt u1 (max_dt_utc w)
         then (max_dt_utc w, astimezone (max_dt_utc w) PK_TZ)
         else (u1, p1))"

definition pick :: "window \<Rightarrow> date \<Rightarrow> int \<Rightarrow> datetime \<times> datetime" where
  "pick w picked_date picked_hour =
     (let picked_pk = candidate_pk picked_date picked_hour;
          picked_utc = astimezone picked_pk UTC
      in clamp w picked_utc picked_pk)"

text \<open>
  The lookup (lines 216 to 221): the rows whose \<open>target_dt_utc\<close> equals \<open>picked_utc\<close>;
  none gives the \<open>st.error\<close> message, otherwise the first of them is shown.
\<close>

datatype lookup_result = NoExactMatch | Found df_row

definition lookup :: "df_row list \<Rightarrow> datetime \<Rightarrow> lookup_result" where
  "lookup df picked_utc =
     (let match = filter (\<lambda>r. dt_eq (target_dt_utc r) picked_utc) df
      in if match = [] then NoExactMatch else Found (match ! 0))"

record picker_view =
  pv_window :: window
  pv_date_widget :: date_widget
  pv_hour_widget :: select_widget
  pv_picked_utc :: datetime
  pv_picked_pk :: datetime
  pv_result :: lookup_result

definition tab2 :: "df_row list \<Rightarrow> datetime \<Rightarrow> date option \<Rightarrow> int option \<Rightarrow> picker_view" where
  "tab2 df base_dt_utc date_choice hour_choice =
     (let w = allowed_window base_dt_utc;
          dw = date_widget_of w;
          sw = hour_widget_of w;
          picked_date = date_input dw date_choice;
          picked_hour = selectbox sw hour_choice;
          (picked_utc, picked_pk) = pick w picked_date picked_hour
      in \<lparr>pv_window = w, pv_date_widget = dw, pv_hour_widget = sw,
          pv_picked_utc = picked_utc, pv_picked_pk = picked_pk,
          pv_result = lookup df picked_utc\<rparr>)"

text \<open>
  What is shown for a match (lines 221 to 231): the local target time, \<open>int\<close> of the
  AQI, the category and \<open>int\<close> of the horizon of the row \<open>best\<close>; for no match, the
  error message and nothing else.
\<close>

record result_view =
  rv_target_pk :: datetime
  rv_aqi :: int
  rv_category :: string
  rv_horizon :: int

definition show_result :: "lookup_result \<Rightarrow> error + result_view option" where
  "show_result res =
     (case res of
        NoExactMatch \<Rightarrow> Inr None
      | Found best \<Rightarrow>
          (case py_int (num_predicted_aqi_us best) of
             Inl e \<Rightarrow> Inl e
           | Inr a \<Rightarrow>
               (case py_int (num_horizon_hours best) of
                  Inl e \<Rightarrow> Inl e
                | Inr h \<Rightarrow>
                    Inr (Some \<lparr>rv_target_pk = target_dt_pk best, rv_aqi = a,
                               rv_category = category (doc best), rv_horizon = h\<rparr>))))"

section \<open>The page\<close>

text \<open>
  \<open>main\<close> (lines 72 to 231), with what it reads made explicit: the libraries, the
  secrets, the store, the text typed into the city box (\<open>None\<close>: the default is left), and
  the user's choices in the two picker widgets. The outcomes: the configuration error and
  \<open>st.stop()\<close>; an exception that leaves \<open>main\<close>; the warning for a city without forecast
  and \<open>st.stop()\<close>; or the page with both tabs. The page carries the data frame that the
  charts and the table of tab 1 display; badges and the download button add no logic.
\<close>

record page =
  pg_city :: string
  pg_base_time :: string
  pg_base_dt_pk :: datetime
  pg_rows :: nat
  pg_table :: "df_row list"
  pg_tab1 :: metrics
  pg_tab2 :: picker_view
  pg_shown :: "result_view option"

datatype outcome =
    MissingMongoUri
  | Raised error
  | NoForecastWarning string
  | Page page

definition chosen_city :: "(string \<rightharpoonup> string) \<Rightarrow> string option \<Rightarrow> string" where
  "chosen_city secrets city_box =
     (let default_city = (case secrets ''CITY'' of None \<Rightarrow> ''Karachi'' | Some c \<Rightarrow> c)
      in case city_box of None \<Rightarrow> default_city | Some t \<Rightarrow> t)"

definition render ::
  "string \<Rightarrow> string \<Rightarrow> df_row list \<Rightarrow> datetime \<Rightarrow> date option \<Rightarrow> int option \<Rightarrow> outcome" where
  "render c b df base_dt_utc date_choice hour_choice =
     (case tab1 df of
        Inl e \<Rightarrow> Raised e
      | Inr m \<Rightarrow>
          (let v = tab2 df base_dt_utc date_choice hour_choice
           in case show_result (pv_result v) of
                Inl e \<Rightarrow> Raised e
              | Inr shown \<Rightarrow>
                  Page \<lparr>pg_city = c, pg_base_time = b,
                        pg_base_dt_pk = astimezone base_dt_utc PK_TZ,
                        pg_rows = length df, pg_table = df,
                        pg_tab1 = m, pg_tab2 = v, pg_shown = shown\<rparr>))"

definition main ::
  "libraries \<Rightarrow> (string \<rightharpoonup> string) \<Rightarrow> store \<Rightarrow> string option \<Rightarrow> date option \<Rightarrow> int option
     \<Rightarrow> outcome" where
  "main L secrets st city_box date_choice hour_choice =
     (case secrets ''MONGO_URI'' of
        None \<Rightarrow> MissingMongoUri
      | Some mongo_uri \<Rightarrow>
          (let c = chosen_city secrets city_box
           in case load_latest_forecast st c of
                Inl e \<Rightarrow> Raised e
              | Inr (bt, rows) \<Rightarrow>
                  if rows = [] then NoForecastWarning c
                  else
                    (case build_df L rows of
                       Inl e \<Rightarrow> Raised e
                     | Inr df \<Rightarrow>
                         (case bt of
                            None \<Rightarrow> Raised TypeError
                          | Some b \<Rightarrow>
                              (case to_dt_utc L b of
                                 None \<Rightarrow> Raised ValueError
                               | Some base_dt_utc \<Rightarrow>
                                   render c b df base_dt_utc date_choice hour_choice)))))"

section \<open>Batches to compute with\<close>

text \<open>
  The batch of the spec's scenario, with base time 2026-01-26T09:00:00Z: the horizons 1 to
  4 and 72, with the AQI values 80, 95, 210, 150 and, at horizon 72, 210 again. A second
  batch generated on the half hour, 09:30:00Z, with the horizons 1 to 3. Both follow the
  data model: each \<open>target_time\<close> is the base time plus the horizon.
\<close>

definition demo_doc :: "string \<Rightarrow> real \<Rightarrow> string \<Rightarrow> stored \<Rightarrow> string \<Rightarrow> forecast_doc" where
  "demo_doc b h t a c =
     \<lparr>city = ''Karachi'', base_time = b, horizon_hours = Number h, target_time = t,
      predicted_aqi_us = a, predicted_pm2_5 = Number 35, category = c\<rparr>"

definition demo_docs :: "forecast_doc list" where
  "demo_docs =
     [demo_doc ''2026-01-26T09:00:00Z'' 1 ''2026-01-26T10:00:00Z'' (Number 80) ''Moderate'',
      demo_doc ''2026-01-26T09:00:00Z'' 2 ''2026-01-26T11:00:00Z'' (Number 95) ''Moderate'',
      demo_doc ''2026-01-26T09:00:00Z'' 3 ''2026-01-26T12:00:00Z'' (Number 210) ''Very Unhealthy'',
      demo_doc ''2026-01-26T09:00:00Z'' 4 ''2026-01-26T13:00:00Z'' (Number 150)
        ''Unhealthy for Sensitive Groups'',
      demo_doc ''2026-01-26T09:00:00Z'' 72 ''2026-01-29T09:00:00Z'' (Number 210) ''Very Unhealthy'']"

definition half_hour_docs :: "forecast_doc list" where
  "half_hour_docs =
     [demo_doc ''2026-01-26T09:30:00Z'' 1 ''2026-01-26T10:30:00Z'' (Number 80) ''Moderate'',
      demo_doc ''2026-01-26T09:30:00Z'' 2 ''2026-01-26T11:30:00Z'' (Number 95) ''Moderate'',
      demo_doc ''2026-01-26T09:30:00Z'' 3 ''2026-01-26T12:30:00Z'' (Number 210) ''Very Unhealthy'']"

text \<open>
  The row of the data frame for a document whose \<open>target_time\<close> has the UTC wall clock
  \<open>t\<close>.
\<close>

definition demo_row :: "forecast_doc \<Rightarrow> int \<Rightarrow> df_row" where
  "demo_row d t =
     \<lparr>doc = d,
      num_horizon_hours = to_numeric demo_libs (horizon_hours d),
      num_predicted_aqi_us = to_numeric demo_libs (predicted_aqi_us d),
      num_predicted_pm2_5 = to_numeric demo_libs (predicted_pm2_5 d),
      target_dt_utc = \<lparr>wall = t, tzinfo = Some UTC\<rparr>,
      target_dt_pk = \<lparr>wall = t + 5 * US_PER_HOUR, tzinfo = Some PK_TZ\<rparr>\<rparr>"

definition demo_df :: "df_row list" where
  "demo_df =
     [demo_row (demo_docs ! 0) 63905104800000000,
      demo_row (demo_docs ! 1) 63905108400000000,
      demo_row (demo_docs ! 2) 63905112000000000,
      demo_row (demo_docs ! 3) 63905115600000000,
      demo_row (demo_docs ! 4) 63905360400000000]"

definition demo_base :: datetime where
  "demo_base = \<lparr>wall = 63905101200000000, tzinfo = Some UTC\<rparr>"

definition half_hour_df :: "df_row list" where
  "half_hour_df =
     [demo_row (half_hour_docs ! 0) 63905106600000000,
      demo_row (half_hour_docs ! 1) 63905110200000000,
      demo_row (half_hour_docs ! 2) 63905113800000000]"

definition half_hour_base :: datetime where
  "half_hour_base = \<lparr>wall = 63905103000000000, tzinfo = Some UTC\<rparr>"

text \<open>
  Two batches that break the data model. In the first the AQI of the first row is null.
  In the second, the documents of horizons 2 and 3 have the same \<open>target_time\<close>, and so
  have those of horizons 4 and 5; the AQI at horizon 2 is null.
\<close>

definition null_docs :: "forecast_doc list" where
  "null_docs =
     [demo_doc ''2026-01-26T09:00:00Z'' 1 ''2026-01-26T10:00:00Z'' Null ''Moderate'',
      demo_doc ''2026-01-26T09:00:00Z'' 2 ''2026-01-26T11:00:00Z'' (Number 210) ''Very Unhealthy'']"

definition dup_docs :: "forecast_doc list" where
  "dup_docs =
     [demo_doc ''2026-01-26T09:00:00Z'' 1 ''2026-01-26T10:00:00Z'' (Number 80) ''Moderate'',
      demo_doc ''2026-01-26T09:00:00Z'' 2 ''2026-01-26T11:00:00Z'' Null ''Moderate'',
      demo_doc ''2026-01-26T09:00:00Z'' 3 ''2026-01-26T11:00:00Z'' (Number 95) ''Moderate'',
      demo_doc ''2026-01-26T09:00:00Z'' 4 ''2026-01-26T12:00:00Z'' (Number 150)
        ''Unhealthy for Sensitive Groups'',
      demo_doc ''2026-01-26T09:00:00Z'' 5 ''2026-01-26T12:00:00Z'' (Number 210) ''Very Unhealthy'']"

definition dup_df :: "df_row list" where
  "dup_df =
     [demo_row (dup_docs ! 0) 63905104800000000,
      demo_row (dup_docs ! 1) 63905108400000000,
      demo_row (dup_docs ! 2) 63905108400000000,
      demo_row (dup_docs ! 3) 63905112000000000,
      demo_row (dup_docs ! 4) 63905112000000000]"

definition demo_secrets :: "string \<rightharpoonup> string" where
  "demo_secrets = [''MONGO_URI'' \<mapsto> ''mongodb://localhost'']"

text \<open>The page that \<open>main\<close> renders for the first batch while the user has chosen nothing.\<close>

definition demo_page :: page where
  "demo_page =
     \<lparr>pg_city = ''Karachi'', pg_base_time = ''2026-01-26T09:00:00Z'',
      pg_base_dt_pk = astimezone demo_base PK_TZ, pg_rows = 5, pg_table = demo_df,
      pg_tab1 = \<lparr>current_aqi = 80, current_category = ''Moderate'', worst_aqi = 210,
                 worst_horizon = 3, worst_category = ''Very Unhealthy''\<rparr>,
      pg_tab2 = tab2 demo_df demo_base None None,
      pg_shown = Some \<lparr>rv_target_pk = target_dt_pk (demo_df ! 0), rv_aqi = 80,
                       rv_category = ''Moderate'', rv_horizon = 1\<rparr>\<rparr>"

text \<open>The page for the batch with repeated target times, nothing chosen.\<close>

definition dup_page :: page where
  "dup_page =
     \<lparr>pg_city = ''Karachi'', pg_base_time = ''2026-01-26T09:00:00Z'',
      pg_base_dt_pk = astimezone demo_base PK_TZ, pg_rows = 5, pg_table = dup_df,
      pg_tab1 = \<lparr>current_aqi = 80, current_category = ''Moderate'', worst_aqi = 210,
                 worst_horizon = 5, worst_category = ''Very Unhealthy''\<rparr>,
      pg_tab2 = tab2 dup_df demo_base None None,
      pg_shown = Some \<lparr>rv_target_pk = target_dt_pk (dup_df ! 0), rv_aqi = 80,
                       rv_category = ''Moderate'', rv_horizon = 1\<rparr>\<rparr>"

section \<open>Basic facts about the time model\<close>

lemma utc_us_astimezone [simp]: "utc_us (astimezone dt tz) = utc_us dt"
  by (simp add: astimezone_def utc_us_def offset_of_def)

lemma tzinfo_astimezone [simp]: "tzinfo (astimezone dt tz) = Some tz"
  by (simp add: astimezone_def)

lemma wall_astimezone: "wall (astimezone dt tz) = utc_us dt + utcoffset tz"
  by (simp add: astimezone_def)

lemma utc_us_dt_add [simp]: "utc_us (dt_add dt td) = utc_us dt + td"
  by (simp add: dt_add_def utc_us_def offset_of_def)

lemma tzinfo_dt_add [simp]: "tzinfo (dt_add dt td) = tzinfo dt"
  by (simp add: dt_add_def)

lemma astimezone_same_zone: "tzinfo dt = Some tz \<Longrightarrow> astimezone dt tz = dt"
  by (simp add: astimezone_def utc_us_def offset_of_def)

lemma astimezone_twice [simp]: "astimezone (astimezone dt tz) tz' = astimezone dt tz'"
  by (simp add: astimezone_def utc_us_def offset_of_def)

lemma tzinfo_mk_datetime [simp]: "tzinfo (mk_datetime d h mi s tz) = tz"
  by (simp add: mk_datetime_def)

lemma to_dt_utc_tzinfo: "to_dt_utc L s = Some u \<Longrightarrow> tzinfo u = Some UTC"
  by (auto simp: to_dt_utc_def split: option.splits)

lemma hour_range: "0 \<le> hour dt \<and> hour dt < 24"
  by (simp add: hour_def)

lemma mult_div_mod_zero:
  fixes k c m :: int
  assumes "c \<noteq> 0"
  shows "((k * m) * c div c) mod m = 0"
  using assms by simp

text \<open>A wall clock on a whole hour is rebuilt from its date and its hour.\<close>

lemma rebuild_general:
  fixes x H :: int
  assumes "0 < H" and "x mod H = 0"
  shows "(x div (H * 24)) * (H * 24) + ((x div H) mod 24) * H = x"
proof -
  obtain q where x: "x = H * q" using assms(2) by (auto simp: mod_eq_0_iff_dvd)
  have "x div (H * 24) = (x div H) div 24"
    using assms(1) by (simp add: zdiv_zmult2_eq)
  also have "x div H = q" using assms(1) by (simp add: x)
  finally have d: "x div (H * 24) = q div 24" .
  define a b where "a = q div 24" and "b = q mod 24"
  have q: "q = 24 * a + b" by (simp add: a_def b_def)
  have "a * (H * 24) + b * H = H * (24 * a + b)" by (simp add: algebra_simps)
  then have "(q div 24) * (H * 24) + (q mod 24) * H = H * q"
    unfolding q [symmetric] by (simp add: a_def b_def)
  moreover have "x div H = q" using assms(1) by (simp add: x)
  ultimately show ?thesis by (simp add: d x)
qed

lemma rebuild_whole_hour:
  assumes "x mod US_PER_HOUR = 0"
  shows "(x div US_PER_DAY) * US_PER_DAY + ((x div US_PER_HOUR) mod 24) * US_PER_HOUR = x"
  using rebuild_general [of US_PER_HOUR x] assms by simp

lemma wall_candidate_pk: "wall (candidate_pk d h) = d * US_PER_DAY + h * US_PER_HOUR"
  by (simp add: candidate_pk_def mk_datetime_def)

lemma minute_candidate: "minute (candidate_pk d h) = 0"
proof -
  have "d * US_PER_DAY + h * US_PER_HOUR = ((d * 24 + h) * 60) * US_PER_MINUTE" by simp
  then have "wall (candidate_pk d h) = ((d * 24 + h) * 60) * US_PER_MINUTE"
    by (simp add: wall_candidate_pk)
  then show ?thesis
    unfolding minute_def using mult_div_mod_zero [of US_PER_MINUTE "d * 24 + h" 60] by simp
qed

lemma second_candidate: "second (candidate_pk d h) = 0"
proof -
  have "d * US_PER_DAY + h * US_PER_HOUR = (((d * 24 + h) * 60) * 60) * US_PER_SECOND" by simp
  then have "wall (candidate_pk d h) = (((d * 24 + h) * 60) * 60) * US_PER_SECOND"
    by (simp add: wall_candidate_pk)
  then show ?thesis
    unfolding second_def using mult_div_mod_zero [of US_PER_SECOND "(d * 24 + h) * 60" 60]
    by simp
qed

lemma microsecond_candidate: "microsecond (candidate_pk d h) = 0"
proof -
  have "d * US_PER_DAY + h * US_PER_HOUR = ((d * 24 + h) * 3600) * US_PER_SECOND" by simp
  then have "wall (candidate_pk d h) = ((d * 24 + h) * 3600) * US_PER_SECOND"
    by (simp add: wall_candidate_pk)
  then show ?thesis
    unfolding microsecond_def by simp
qed

subsection \<open>The example parser on a string without offset\<close>

lemma parse_tzstr_naive: "parse_tzstr z = Some None \<longleftrightarrow> z = []"
  by (auto simp: parse_tzstr_def split: option.splits if_splits)

lemma iso_extended_naive_length:
  assumes "iso_extended s = Some dt" and "tzinfo dt = None"
  shows "length s = 19"
proof -
  from assms have "parse_tzstr (drop 19 s) = Some None" and "19 \<le> length s"
    by (auto simp: iso_extended_def split: option.splits if_splits)
  then show ?thesis by (simp add: parse_tzstr_naive)
qed

lemma iso_extended_append_Z:
  assumes "iso_extended s = Some dt" and "length s = 19"
  shows "iso_extended (s @ ''Z'') = Some (dt\<lparr>tzinfo := Some UTC\<rparr>)"
proof -
  have tz: "parse_tzstr ''Z'' = Some (Some UTC)"
    by (simp add: parse_tzstr_def)
  have tz0: "parse_tzstr (drop 19 s) = Some None"
    using assms(2) by (simp add: parse_tzstr_def)
  show ?thesis
    using assms tz0
    by (auto simp: iso_extended_def nth_append tz mk_datetime_def split: option.splits if_splits)
qed

section \<open>The window of the picker\<close>

text \<open>
  Claim C3. For every base time, the lower bound of the window is the base time plus one
  hour and the upper bound is the base time plus 72 hours; the local bounds are these two
  instants on the Pakistan wall clock (zone \<open>PK_TZ\<close>, five hours ahead); and both bounds
  belong to the window: a selection that falls on a bound is kept as it is.
\<close>

theorem window_bounds:
  "utc_us (min_dt_utc (allowed_window b)) = utc_us b + 1 * US_PER_HOUR
   \<and> utc_us (max_dt_utc (allowed_window b)) = utc_us b + 72 * US_PER_HOUR
   \<and> min_dt_pk (allowed_window b) = astimezone (min_dt_utc (allowed_window b)) PK_TZ
   \<and> max_dt_pk (allowed_window b) = astimezone (max_dt_utc (allowed_window b)) PK_TZ
   \<and> tzinfo (min_dt_pk (allowed_window b)) = Some PK_TZ
   \<and> tzinfo (max_dt_pk (allowed_window b)) = Some PK_TZ
   \<and> utc_us (min_dt_pk (allowed_window b)) = utc_us b + 1 * US_PER_HOUR
   \<and> utc_us (max_dt_pk (allowed_window b)) = utc_us b + 72 * US_PER_HOUR
   \<and> wall (min_dt_pk (allowed_window b)) = utc_us b + 1 * US_PER_HOUR + 5 * US_PER_HOUR
   \<and> wall (max_dt_pk (allowed_window b)) = utc_us b + 72 * US_PER_HOUR + 5 * US_PER_HOUR
   \<and> fst (clamp (allowed_window b) (min_dt_utc (allowed_window b)) p)
       = min_dt_utc (allowed_window b)
   \<and> fst (clamp (allowed_window b) (max_dt_utc (allowed_window b)) p)
       = max_dt_utc (allowed_window b)"
  by (simp add: allowed_window_def Let_def timedelta_hours_def wall_astimezone clamp_def
      dt_lt_def dt_gt_def)

text \<open>
  Claim C10. Whatever date and hour are chosen, the instant that leaves the clamping stage
  lies between the base time plus one hour and the base time plus 72 hours, both included;
  and clamping the clamped pair again changes nothing.
\<close>

theorem clamp_within_window_idempotent:
  "utc_us b + 1 * US_PER_HOUR \<le> utc_us (fst (pick (allowed_window b) d h))
   \<and> utc_us (fst (pick (allowed_window b) d h)) \<le> utc_us b + 72 * US_PER_HOUR
   \<and> clamp (allowed_window b) (fst (pick (allowed_window b) d h))
        (snd (pick (allowed_window b) d h))
       = pick (allowed_window b) d h"
  by (auto simp add: pick_def clamp_def Let_def allowed_window_def timedelta_hours_def
      dt_lt_def dt_gt_def)

section \<open>Parsing and the round trip through local time\<close>

lemma to_dt_utc_naive:
  assumes "isoparse L s = Some dt" and "tzinfo dt = None"
  shows "to_dt_utc L s = Some \<lparr>wall = wall dt, tzinfo = Some UTC\<rparr>"
  using assms
  by (simp add: to_dt_utc_def astimezone_def replace_tzinfo_def utc_us_def offset_of_def)

lemma to_dt_utc_aware:
  assumes "isoparse L s = Some dt" and "tzinfo dt = Some tz"
  shows "to_dt_utc L s = Some \<lparr>wall = wall dt - utcoffset tz, tzinfo = Some UTC\<rparr>"
  using assms
  by (simp add: to_dt_utc_def astimezone_def utc_us_def offset_of_def)

text \<open>
  Claim C4. Whatever \<open>to_dt_utc\<close> returns is a datetime in UTC, and it returns one for
  every string that \<open>isoparse\<close> accepts. A string that carries no offset is read as UTC:
  the wall clock that the parser found is the UTC wall clock of the result, whatever the
  zone of the host. A string that carries an offset is converted: the result is the parsed
  wall clock minus the offset. Hence two strings that the parser reads to the same wall
  clock, one without offset and one with the designator of UTC, give the same result; on
  the layout of the example parser, these are a string and the same string followed by
  \<open>Z\<close>.
\<close>

theorem to_dt_utc_anchored:
  "(to_dt_utc L s = Some u \<longrightarrow> tzinfo u = Some UTC)
   \<and> (isoparse L s = None \<longrightarrow> to_dt_utc L s = None)
   \<and> (isoparse L s = Some dt \<and> tzinfo dt = None \<longrightarrow>
        to_dt_utc L s = Some \<lparr>wall = wall dt, tzinfo = Some UTC\<rparr>)
   \<and> (isoparse L s = Some dt \<and> tzinfo dt = Some tz \<longrightarrow>
        to_dt_utc L s = Some \<lparr>wall = wall dt - utcoffset tz, tzinfo = Some UTC\<rparr>)
   \<and> (isoparse L s = Some \<lparr>wall = w, tzinfo = None\<rparr>
        \<and> isoparse L s' = Some \<lparr>wall = w, tzinfo = Some UTC\<rparr> \<longrightarrow>
        to_dt_utc L s' = to_dt_utc L s)
   \<and> (iso_extended s = Some dt \<and> tzinfo dt = None \<longrightarrow>
        to_dt_utc demo_libs (s @ ''Z'') = to_dt_utc demo_libs s)"
proof (intro conjI impI)
  assume "to_dt_utc L s = Some u"
  then show "tzinfo u = Some UTC" by (rule to_dt_utc_tzinfo)
next
  assume "isoparse L s = None"
  then show "to_dt_utc L s = None" by (simp add: to_dt_utc_def)
next
  assume "isoparse L s = Some dt \<and> tzinfo dt = None"
  then show "to_dt_utc L s = Some \<lparr>wall = wall dt, tzinfo = Some UTC\<rparr>"
    by (simp add: to_dt_utc_naive)
next
  assume "isoparse L s = Some dt \<and> tzinfo dt = Some tz"
  then show "to_dt_utc L s = Some \<lparr>wall = wall dt - utcoffset tz, tzinfo = Some UTC\<rparr>"
    by (simp add: to_dt_utc_aware)
next
  assume a: "isoparse L s = Some \<lparr>wall = w, tzinfo = None\<rparr>
        \<and> isoparse L s' = Some \<lparr>wall = w, tzinfo = Some UTC\<rparr>"
  then have "to_dt_utc L s = Some \<lparr>wall = w, tzinfo = Some UTC\<rparr>"
    using to_dt_utc_naive [of L s "\<lparr>wall = w, tzinfo = None\<rparr>"] by simp
  moreover from a have "to_dt_utc L s' = Some \<lparr>wall = w, tzinfo = Some UTC\<rparr>"
    using to_dt_utc_aware [of L s' "\<lparr>wall = w, tzinfo = Some UTC\<rparr>" UTC] by simp
  ultimately show "to_dt_utc L s' = to_dt_utc L s" by simp
next
  assume a: "iso_extended s = Some dt \<and> tzinfo dt = None"
  then have "length s = 19" by (simp add: iso_extended_naive_length)
  with a have z: "iso_extended (s @ ''Z'') = Some (dt\<lparr>tzinfo := Some UTC\<rparr>)"
    by (simp add: iso_extended_append_Z)
  from a have "to_dt_utc demo_libs s = Some \<lparr>wall = wall dt, tzinfo = Some UTC\<rparr>"
    by (intro to_dt_utc_naive) (simp_all add: demo_libs_def)
  moreover from z have "to_dt_utc demo_libs (s @ ''Z'')
      = Some \<lparr>wall = wall (dt\<lparr>tzinfo := Some UTC\<rparr>) - utcoffset UTC, tzinfo = Some UTC\<rparr>"
    by (intro to_dt_utc_aware) (simp_all add: demo_libs_def)
  ultimately show "to_dt_utc demo_libs (s @ ''Z'') = to_dt_utc demo_libs s" by simp
qed

theorem to_dt_utc_anchored_witness:
  "isoparse demo_libs ''2026-01-26T09:00:00'' = Some \<lparr>wall = 63905101200000000, tzinfo = None\<rparr>
   \<and> isoparse demo_libs ''2026-01-26T09:00:00Z''
       = Some \<lparr>wall = 63905101200000000, tzinfo = Some UTC\<rparr>
   \<and> to_dt_utc demo_libs ''2026-01-26T09:00:00''
       = Some \<lparr>wall = 63905101200000000, tzinfo = Some UTC\<rparr>
   \<and> to_dt_utc demo_libs ''2026-01-26T09:00:00Z'' = to_dt_utc demo_libs ''2026-01-26T09:00:00''
   \<and> isoparse demo_libs ''2026-01-26T14:00:00+05:00''
       = Some \<lparr>wall = 63905119200000000, tzinfo = Some (tzoffset 18000)\<rparr>
   \<and> to_dt_utc demo_libs ''2026-01-26T14:00:00+05:00''
       = Some \<lparr>wall = 63905101200000000, tzinfo = Some UTC\<rparr>
   \<and> isoparse demo_libs ''2026-01-26'' = None
   \<and> to_dt_utc demo_libs ''2026-01-26'' = None"
proof -
  have h1: "isoparse demo_libs ''2026-01-26T09:00:00''
            = Some \<lparr>wall = 63905101200000000, tzinfo = None\<rparr>"
    by code_simp
  have h2: "isoparse demo_libs ''2026-01-26T09:00:00Z''
            = Some \<lparr>wall = 63905101200000000, tzinfo = Some UTC\<rparr>"
    by code_simp
  have h3: "isoparse demo_libs ''2026-01-26T14:00:00+05:00''
            = Some \<lparr>wall = 63905119200000000, tzinfo = Some (tzoffset 18000)\<rparr>"
    by code_simp
  have h4: "isoparse demo_libs ''2026-01-26'' = None"
    by code_simp
  from to_dt_utc_anchored [of demo_libs "''2026-01-26T09:00:00''"
      "\<lparr>wall = 63905101200000000, tzinfo = Some UTC\<rparr>"
      "\<lparr>wall = 63905101200000000, tzinfo = None\<rparr>" UTC
      63905101200000000 "''2026-01-26T09:00:00Z''"] h1 h2
  have a: "to_dt_utc demo_libs ''2026-01-26T09:00:00''
             = Some \<lparr>wall = 63905101200000000, tzinfo = Some UTC\<rparr>
           \<and> to_dt_utc demo_libs ''2026-01-26T09:00:00Z''
             = to_dt_utc demo_libs ''2026-01-26T09:00:00''"
    by simp
  from to_dt_utc_anchored [of demo_libs "''2026-01-26T14:00:00+05:00''" _
      "\<lparr>wall = 63905119200000000, tzinfo = Some (tzoffset 18000)\<rparr>" "tzoffset 18000"] h3
  have b: "to_dt_utc demo_libs ''2026-01-26T14:00:00+05:00''
             = Some \<lparr>wall = 63905101200000000, tzinfo = Some UTC\<rparr>"
    by simp
  from to_dt_utc_anchored [of demo_libs "''2026-01-26''"] h4
  have c: "to_dt_utc demo_libs ''2026-01-26'' = None"
    by simp
  from a b c h1 h2 h3 h4 show ?thesis by blast
qed

text \<open>
  Claim C5. The instant that \<open>to_dt_utc\<close> returns, converted to Pakistan time and back to
  UTC, is the datetime it started from, whatever its minutes, seconds and microseconds;
  in particular, for every row of the data frame, the local column converted back to UTC
  is the UTC column.
\<close>

theorem local_round_trip:
  "(to_dt_utc L s = Some u \<longrightarrow>
      astimezone (astimezone u PK_TZ) UTC = u \<and> utc_us (astimezone u PK_TZ) = utc_us u)
   \<and> (annotate L d = Some r \<longrightarrow> astimezone (target_dt_pk r) UTC = target_dt_utc r)"
proof (intro conjI impI)
  assume a: "to_dt_utc L s = Some u"
  then have "tzinfo u = Some UTC" by (rule to_dt_utc_tzinfo)
  then show "astimezone (astimezone u PK_TZ) UTC = u"
    by (simp add: astimezone_same_zone)
  show "utc_us (astimezone u PK_TZ) = utc_us u" by simp
next
  assume "annotate L d = Some r"
  then obtain t where t: "to_dt_utc L (target_time d) = Some t"
    and r: "target_dt_utc r = t" "target_dt_pk r = astimezone t PK_TZ"
    by (auto simp: annotate_def split: option.splits)
  from t have "tzinfo t = Some UTC" by (rule to_dt_utc_tzinfo)
  then show "astimezone (target_dt_pk r) UTC = target_dt_utc r"
    by (simp add: r astimezone_same_zone)
qed

theorem local_round_trip_witness:
  "to_dt_utc demo_libs ''2026-01-26T09:30:00Z'' = Some half_hour_base
   \<and> astimezone (astimezone half_hour_base PK_TZ) UTC = half_hour_base
   \<and> annotate demo_libs (half_hour_docs ! 1) = Some (half_hour_df ! 1)
   \<and> astimezone (target_dt_pk (half_hour_df ! 1)) UTC = target_dt_utc (half_hour_df ! 1)"
proof -
  have h1: "to_dt_utc demo_libs ''2026-01-26T09:30:00Z'' = Some half_hour_base" by code_simp
  have h2: "annotate demo_libs (half_hour_docs ! 1) = Some (half_hour_df ! 1)" by code_simp
  from local_round_trip [of demo_libs "''2026-01-26T09:30:00Z''" half_hour_base
      "half_hour_docs ! 1" "half_hour_df ! 1"] h1 h2
  show ?thesis by simp
qed

section \<open>The widgets of the picker\<close>

lemma selectbox_default_hour:
  "selectbox (hour_widget_of w) None = hour (min_dt_pk w)"
  using hour_range [of "min_dt_pk w"]
  by (simp add: selectbox_def hour_widget_of_def nth_upto)

lemma tab2_widgets:
  "pv_window (tab2 df b dc hc) = allowed_window b
   \<and> pv_date_widget (tab2 df b dc hc) = date_widget_of (allowed_window b)
   \<and> pv_hour_widget (tab2 df b dc hc) = hour_widget_of (allowed_window b)"
  by (simp add: tab2_def Let_def split: prod.splits)

lemma tab2_result:
  "pv_picked_utc (tab2 df b dc hc)
     = fst (pick (allowed_window b) (date_input (date_widget_of (allowed_window b)) dc)
             (selectbox (hour_widget_of (allowed_window b)) hc))
   \<and> pv_result (tab2 df b dc hc) = lookup df (pv_picked_utc (tab2 df b dc hc))"
  by (simp add: tab2_def Let_def split: prod.splits)

lemma minute_candidate_utc: "minute (astimezone (candidate_pk d h) UTC) = 0"
proof -
  have "d * US_PER_DAY + h * US_PER_HOUR - 5 * US_PER_HOUR
        = ((d * 24 + h - 5) * 60) * US_PER_MINUTE" by simp
  then have "wall (astimezone (candidate_pk d h) UTC) = ((d * 24 + h - 5) * 60) * US_PER_MINUTE"
    by (simp add: wall_astimezone utc_us_def offset_of_def candidate_pk_def mk_datetime_def)
  then show ?thesis
    unfolding minute_def using mult_div_mod_zero [of US_PER_MINUTE "d * 24 + h - 5" 60] by simp
qed

text \<open>
  Claim C9. The candidate built from the chosen date and hour has minute, second and
  microsecond 0, in Pakistan time and in UTC. The hour that the select box offers before
  the user chooses is the Pakistan hour of the lower bound of the window. The date input
  is bounded by the Pakistan calendar dates of the lower and of the upper bound, and
  starts on the date of the lower bound.
\<close>

theorem picker_interface:
  "minute (candidate_pk d h) = 0
   \<and> second (candidate_pk d h) = 0
   \<and> microsecond (candidate_pk d h) = 0
   \<and> minute (astimezone (candidate_pk d h) UTC) = 0
   \<and> sw_options (pv_hour_widget (tab2 df b dc hc)) = [0..23]
   \<and> selectbox (pv_hour_widget (tab2 df b dc hc)) None = hour (min_dt_pk (allowed_window b))
   \<and> dw_min_value (pv_date_widget (tab2 df b dc hc)) = date_of (min_dt_pk (allowed_window b))
   \<and> dw_max_value (pv_date_widget (tab2 df b dc hc)) = date_of (max_dt_pk (allowed_window b))
   \<and> date_input (pv_date_widget (tab2 df b dc hc)) None = date_of (min_dt_pk (allowed_window b))
   \<and> hour (min_dt_pk (allowed_window b)) = ((utc_us b + 6 * US_PER_HOUR) div US_PER_HOUR) mod 24
   \<and> date_of (min_dt_pk (allowed_window b)) = (utc_us b + 6 * US_PER_HOUR) div US_PER_DAY
   \<and> date_of (max_dt_pk (allowed_window b)) = (utc_us b + 77 * US_PER_HOUR) div US_PER_DAY"
proof -
  have w: "wall (min_dt_pk (allowed_window b)) = utc_us b + 6 * US_PER_HOUR"
    "wall (max_dt_pk (allowed_window b)) = utc_us b + 77 * US_PER_HOUR"
    by (simp_all add: allowed_window_def Let_def timedelta_hours_def wall_astimezone)
  have a: "sw_options (pv_hour_widget (tab2 df b dc hc)) = [0..23]"
    by (simp add: tab2_widgets hour_widget_of_def)
  have s: "selectbox (pv_hour_widget (tab2 df b dc hc)) None = hour (min_dt_pk (allowed_window b))"
    by (simp add: tab2_widgets selectbox_default_hour)
  have d: "dw_min_value (pv_date_widget (tab2 df b dc hc)) = date_of (min_dt_pk (allowed_window b))"
    "dw_max_value (pv_date_widget (tab2 df b dc hc)) = date_of (max_dt_pk (allowed_window b))"
    "date_input (pv_date_widget (tab2 df b dc hc)) None = date_of (min_dt_pk (allowed_window b))"
    by (simp_all add: tab2_widgets date_widget_of_def date_input_def)
  have e: "hour (min_dt_pk (allowed_window b)) = ((utc_us b + 6 * US_PER_HOUR) div US_PER_HOUR) mod 24"
    "date_of (min_dt_pk (allowed_window b)) = (utc_us b + 6 * US_PER_HOUR) div US_PER_DAY"
    "date_of (max_dt_pk (allowed_window b)) = (utc_us b + 77 * US_PER_HOUR) div US_PER_DAY"
    by (simp_all add: hour_def date_of_def w)
  from a s d e show ?thesis
    using minute_candidate second_candidate microsecond_candidate minute_candidate_utc
    by blast
qed

section \<open>A city without forecast\<close>

lemma filter_city_empty: "\<forall>d\<in>set col. city d \<noteq> c \<Longrightarrow> filter (\<lambda>d. city d = c) col = []"
  by (induction col) auto

text \<open>
  Claim C8. When the collection holds no document of the requested city, the loader
  returns \<open>(None, [])\<close> and raises nothing, and \<open>main\<close> ends with the warning for that
  city: no page, hence no chart and nothing else, is rendered.
\<close>

theorem not_found_warning:
  assumes "\<forall>d\<in>set col. city d \<noteq> chosen_city secrets cb"
  shows "load_latest_forecast (Collection col) (chosen_city secrets cb) = Inr (None, [])
         \<and> (secrets ''MONGO_URI'' \<noteq> None \<longrightarrow>
              main L secrets (Collection col) cb dc hc = NoForecastWarning (chosen_city secrets cb))"
proof -
  have l: "load_latest_forecast (Collection col) (chosen_city secrets cb) = Inr (None, [])"
    using filter_city_empty [OF assms] by (simp add: load_latest_forecast_def)
  then show ?thesis by (auto simp: main_def Let_def)
qed

theorem not_found_warning_witness:
  "load_latest_forecast (Collection demo_docs) ''Lahore'' = Inr (None, [])
   \<and> main demo_libs demo_secrets (Collection demo_docs) (Some ''Lahore'') None None
       = NoForecastWarning ''Lahore''"
proof -
  have c: "chosen_city demo_secrets (Some ''Lahore'') = ''Lahore''"
    by (simp add: chosen_city_def)
  have h: "\<forall>d\<in>set demo_docs. city d \<noteq> chosen_city demo_secrets (Some ''Lahore'')"
    by (simp add: c demo_docs_def demo_doc_def)
  have m: "demo_secrets ''MONGO_URI'' \<noteq> None" by (simp add: demo_secrets_def)
  from not_found_warning [OF h, of demo_libs None None] m h c show ?thesis by simp
qed

section \<open>What a rendered page is made of\<close>

lemma build_df_docs: "build_df L rows = Inr df \<Longrightarrow> map doc df = rows"
  by (induction rows arbitrary: df)
     (auto simp: annotate_def split: option.splits sum.splits)

lemma annotate_doc: "annotate L d = Some r \<Longrightarrow> doc r = d"
  by (cases "to_dt_utc L (target_time d)") (auto simp: annotate_def)

lemma build_df_rows:
  "build_df L rows = Inr df \<Longrightarrow> r \<in> set df \<Longrightarrow> annotate L (doc r) = Some r"
proof (induction rows arbitrary: df)
  case Nil
  then show ?case by simp
next
  case (Cons d ds)
  from Cons.prems(1) obtain r0 where a: "annotate L d = Some r0"
    by (cases "annotate L d") auto
  from Cons.prems(1) a obtain rs where b: "build_df L ds = Inr rs"
    by (cases "build_df L ds") auto
  from Cons.prems(1) a b have df: "df = r0 # rs" by simp
  show ?case
  proof (cases "r = r0")
    case True
    with a annotate_doc [OF a] show ?thesis by simp
  next
    case False
    with Cons.prems(2) df have "r \<in> set rs" by simp
    with Cons.IH [OF b] show ?thesis .
  qed
qed

lemma load_sorted:
  assumes "load_latest_forecast st c = Inr (bt, rows)"
  shows "sorted (map (\<lambda>d. bson_key (horizon_hours d)) rows)"
  using assms
  by (auto simp: load_latest_forecast_def split: store.splits option.splits)

lemma render_Page:
  assumes "render c b df base dc hc = Page pg"
  shows "tab1 df = Inr (pg_tab1 pg) \<and> pg_table pg = df \<and> pg_tab2 pg = tab2 df base dc hc
         \<and> show_result (pv_result (tab2 df base dc hc)) = Inr (pg_shown pg)"
  using assms
  by (auto simp: render_def Let_def split: sum.splits)

lemma main_Page:
  assumes "main L secrets st cb dc hc = Page pg"
  shows "\<exists>b rows df base.
           load_latest_forecast st (chosen_city secrets cb) = Inr (Some b, rows)
           \<and> rows \<noteq> [] \<and> build_df L rows = Inr df \<and> to_dt_utc L b = Some base
           \<and> render (chosen_city secrets cb) b df base dc hc = Page pg
           \<and> (\<forall>dc' hc'. main L secrets st cb dc' hc'
                 = render (chosen_city secrets cb) b df base dc' hc')"
proof -
  define c where "c = chosen_city secrets cb"
  from assms obtain uri where u: "secrets ''MONGO_URI'' = Some uri"
    by (cases "secrets ''MONGO_URI''") (simp_all add: main_def)
  from assms u obtain bt rows where l: "load_latest_forecast st c = Inr (bt, rows)"
    by (cases "load_latest_forecast st c") (auto simp: main_def Let_def c_def)
  from assms u l have ne: "rows \<noteq> []"
    by (auto simp: main_def Let_def c_def split: if_splits)
  from assms u l ne obtain df where df: "build_df L rows = Inr df"
    by (cases "build_df L rows") (auto simp: main_def Let_def c_def)
  from assms u l ne df obtain b where b: "bt = Some b"
    by (cases bt) (auto simp: main_def Let_def c_def)
  from assms u l ne df b obtain base where base: "to_dt_utc L b = Some base"
    by (cases "to_dt_utc L b") (auto simp: main_def Let_def c_def)
  have "\<And>dc' hc'. main L secrets st cb dc' hc' = render c b df base dc' hc'"
    using u l ne df b base by (simp add: main_def Let_def c_def)
  with assms l ne df b base show ?thesis unfolding c_def by metis
qed

lemma main_table:
  assumes "main L secrets st cb dc hc = Page pg"
  shows "pg_table pg \<noteq> []
         \<and> sorted (map (\<lambda>r. bson_key (horizon_hours (doc r))) (pg_table pg))
         \<and> tab1 (pg_table pg) = Inr (pg_tab1 pg)"
proof -
  from main_Page [OF assms] obtain b rows df base where
    l: "load_latest_forecast st (chosen_city secrets cb) = Inr (Some b, rows)"
    and ne: "rows \<noteq> []" and df: "build_df L rows = Inr df"
    and r: "render (chosen_city secrets cb) b df base dc hc = Page pg"
    by blast
  from render_Page [OF r] have t: "pg_table pg = df" and t1: "tab1 df = Inr (pg_tab1 pg)"
    by simp_all
  from build_df_docs [OF df] have m: "map doc df = rows" .
  with ne have "df \<noteq> []" by auto
  moreover have "map (\<lambda>r. bson_key (horizon_hours (doc r))) df
                 = map (\<lambda>d. bson_key (horizon_hours d)) rows"
    unfolding m [symmetric] by simp
  ultimately show ?thesis using load_sorted [OF l] t t1 by simp
qed

lemma demo_main:
  "main demo_libs demo_secrets (Collection (rev demo_docs)) None None None = Page demo_page"
  by code_simp

section \<open>The worst AQI of the batch\<close>

lemma scan_max_first_max:
  assumes "ys = pre @ xs" and "length pre = i"
    and "best = None \<longrightarrow> (\<forall>j<i. ys ! j = None)"
    and "\<forall>bi bv. best = Some (bi, bv) \<longrightarrow>
           bi < i \<and> ys ! bi = Some bv
           \<and> (\<forall>j<i. \<forall>y. ys ! j = Some y \<longrightarrow> y \<le> bv)
           \<and> (\<forall>j<bi. \<forall>y. ys ! j = Some y \<longrightarrow> y < bv)"
  shows "(scan_max best i xs = None \<longrightarrow> (\<forall>j<length ys. ys ! j = None))
         \<and> (\<forall>k v. scan_max best i xs = Some (k, v) \<longrightarrow>
               k < length ys \<and> ys ! k = Some v
               \<and> (\<forall>j<length ys. \<forall>y. ys ! j = Some y \<longrightarrow> y \<le> v)
               \<and> (\<forall>j<k. \<forall>y. ys ! j = Some y \<longrightarrow> y < v))"
  using assms
proof (induction best i xs arbitrary: pre rule: scan_max.induct)
  case (1 best i)
  then show ?case by auto
next
  case (2 best i xs)
  have yi: "ys ! i = None" using "2.prems"(1,2) by (simp add: nth_append)
  have ys: "ys = (pre @ [None]) @ xs" using "2.prems"(1) by simp
  have len: "length (pre @ [None]) = Suc i" using "2.prems"(2) by simp
  have a: "best = None \<longrightarrow> (\<forall>j<Suc i. ys ! j = None)"
    using "2.prems"(3) yi by (auto simp: less_Suc_eq)
  have b: "\<forall>bi bv. best = Some (bi, bv) \<longrightarrow>
           bi < Suc i \<and> ys ! bi = Some bv
           \<and> (\<forall>j<Suc i. \<forall>y. ys ! j = Some y \<longrightarrow> y \<le> bv)
           \<and> (\<forall>j<bi. \<forall>y. ys ! j = Some y \<longrightarrow> y < bv)"
    using "2.prems"(4) yi by (auto simp: less_Suc_eq)
  from "2.IH" [OF ys len a b] show ?case by simp
next
  case (3 i x xs)
  have yi: "ys ! i = Some x" using "3.prems"(1,2) by (simp add: nth_append)
  have ys: "ys = (pre @ [Some x]) @ xs" using "3.prems"(1) by simp
  have len: "length (pre @ [Some x]) = Suc i" using "3.prems"(2) by simp
  have n: "\<forall>j<i. ys ! j = None" using "3.prems"(3) by simp
  have b: "\<forall>bi bv. Some (i, x) = Some (bi, bv) \<longrightarrow>
           bi < Suc i \<and> ys ! bi = Some bv
           \<and> (\<forall>j<Suc i. \<forall>y. ys ! j = Some y \<longrightarrow> y \<le> bv)
           \<and> (\<forall>j<bi. \<forall>y. ys ! j = Some y \<longrightarrow> y < bv)"
    using n yi by (auto simp: less_Suc_eq)
  from "3.IH" [OF ys len _ b] show ?case by simp
next
  case (4 bi bv i x xs)
  have yi: "ys ! i = Some x" using "4.prems"(1,2) by (simp add: nth_append)
  have ys: "ys = (pre @ [Some x]) @ xs" using "4.prems"(1) by simp
  have len: "length (pre @ [Some x]) = Suc i" using "4.prems"(2) by simp
  from "4.prems"(4) have inv: "bi < i" "ys ! bi = Some bv"
    "\<forall>j<i. \<forall>y. ys ! j = Some y \<longrightarrow> y \<le> bv"
    "\<forall>j<bi. \<forall>y. ys ! j = Some y \<longrightarrow> y < bv"
    by auto
  show ?case
  proof (cases "bv < x")
    case True
    have b: "\<forall>bi' bv'. Some (i, x) = Some (bi', bv') \<longrightarrow>
           bi' < Suc i \<and> ys ! bi' = Some bv'
           \<and> (\<forall>j<Suc i. \<forall>y. ys ! j = Some y \<longrightarrow> y \<le> bv')
           \<and> (\<forall>j<bi'. \<forall>y. ys ! j = Some y \<longrightarrow> y < bv')"
      using inv(3) True yi by (fastforce simp: less_Suc_eq)
    from "4.IH"(1) [OF True ys len _ b] True show ?thesis by simp
  next
    case False
    have b: "\<forall>bi' bv'. Some (bi, bv) = Some (bi', bv') \<longrightarrow>
           bi' < Suc i \<and> ys ! bi' = Some bv'
           \<and> (\<forall>j<Suc i. \<forall>y. ys ! j = Some y \<longrightarrow> y \<le> bv')
           \<and> (\<forall>j<bi'. \<forall>y. ys ! j = Some y \<longrightarrow> y < bv')"
      using inv False yi by (auto simp: less_Suc_eq)
    from "4.IH"(2) [OF False ys len _ b] False show ?thesis by simp
  qed
qed

lemma idxmax_None: "idxmax xs = None \<Longrightarrow> \<forall>j<length xs. xs ! j = None"
  using scan_max_first_max [of xs "[]" xs 0 None] by (simp add: idxmax_def)

lemma idxmax_Some:
  assumes "idxmax xs = Some k"
  shows "k < length xs \<and> (\<exists>v. xs ! k = Some v
           \<and> (\<forall>j<length xs. \<forall>y. xs ! j = Some y \<longrightarrow> y \<le> v)
           \<and> (\<forall>j<k. \<forall>y. xs ! j = Some y \<longrightarrow> y < v))"
proof -
  from assms obtain v where "scan_max None 0 xs = Some (k, v)"
    by (auto simp: idxmax_def)
  with scan_max_first_max [of xs "[]" xs 0 None] show ?thesis by auto
qed

lemma tab1_Inr:
  assumes "tab1 df = Inr m"
  shows "\<exists>i. idxmax (map num_predicted_aqi_us df) = Some i
           \<and> py_int (num_predicted_aqi_us (df ! 0)) = Inr (current_aqi m)
           \<and> py_int (num_predicted_aqi_us (df ! i)) = Inr (worst_aqi m)
           \<and> py_int (num_horizon_hours (df ! i)) = Inr (worst_horizon m)
           \<and> worst_category m = category (doc (df ! i))
           \<and> current_category m = category (doc (df ! 0))"
proof -
  from assms obtain i where i: "idxmax (map num_predicted_aqi_us df) = Some i"
    by (cases "idxmax (map num_predicted_aqi_us df)") (auto simp: tab1_def Let_def)
  from assms i obtain ca where ca: "py_int (num_predicted_aqi_us (df ! 0)) = Inr ca"
    by (cases "py_int (num_predicted_aqi_us (df ! 0))") (auto simp: tab1_def Let_def)
  from assms i ca obtain wa where wa: "py_int (num_predicted_aqi_us (df ! i)) = Inr wa"
    by (cases "py_int (num_predicted_aqi_us (df ! i))") (auto simp: tab1_def Let_def)
  from assms i ca wa obtain wh where wh: "py_int (num_horizon_hours (df ! i)) = Inr wh"
    by (cases "py_int (num_horizon_hours (df ! i))") (auto simp: tab1_def Let_def)
  from assms i ca wa wh have "m = \<lparr>current_aqi = ca, current_category = category (doc (df ! 0)),
      worst_aqi = wa, worst_horizon = wh, worst_category = category (doc (df ! i))\<rparr>"
    by (simp add: tab1_def Let_def)
  with i ca wa wh show ?thesis by simp
qed

lemma tab1_returns:
  assumes "df \<noteq> []" and "num_predicted_aqi_us (df ! 0) \<noteq> None"
    and "\<forall>r\<in>set df. num_horizon_hours r \<noteq> None"
  shows "\<exists>m. tab1 df = Inr m"
proof -
  define xs where "xs = map num_predicted_aqi_us df"
  have "xs ! 0 \<noteq> None" "0 < length xs" using assms(1,2) by (simp_all add: xs_def)
  have "idxmax xs \<noteq> None"
  proof
    assume "idxmax xs = None"
    from idxmax_None [OF this] \<open>0 < length xs\<close> have "xs ! 0 = None" by blast
    with \<open>xs ! 0 \<noteq> None\<close> show False by simp
  qed
  then obtain i where i: "idxmax xs = Some i" by auto
  from idxmax_Some [OF i] obtain v where il: "i < length df" and v: "xs ! i = Some v"
    by (auto simp: xs_def)
  then have wv: "num_predicted_aqi_us (df ! i) = Some v" by (simp add: xs_def)
  from il assms(3) obtain h where h: "num_horizon_hours (df ! i) = Some h" by fastforce
  from assms(2) obtain c where c: "num_predicted_aqi_us (df ! 0) = Some c" by auto
  show ?thesis using i wv h c by (simp add: tab1_def Let_def xs_def py_int_def)
qed

lemma sorted_numbers:
  assumes "sorted (map (\<lambda>r. bson_key (horizon_hours (doc r))) df)"
    and "i \<le> j" and "j < length df"
    and "horizon_hours (doc (df ! i)) = Number a" and "horizon_hours (doc (df ! j)) = Number b"
  shows "a \<le> b"
proof -
  from assms(1,2,3) have "bson_key (horizon_hours (doc (df ! i))) \<le> bson_key (horizon_hours (doc (df ! j)))"
    by (auto simp: sorted_iff_nth_mono dest!: spec [of _ i] spec [of _ j])
  with assms(4,5) show ?thesis by (auto simp: less_eq_prod_def)
qed

text \<open>
  Claim C7, as amended. On a rendered page the data frame is not empty and is in the
  loader's ascending order of \<open>horizon_hours\<close> (numerically ascending where the horizons
  are numbers). The "worst" metric shows a row with a numeric \<open>predicted_aqi_us\<close> that no
  numeric value of the column exceeds and that every earlier numeric value stays strictly
  below (the first occurrence of the maximum; rows without a numeric value are skipped),
  and it reports \<open>int\<close> of that value, \<open>int\<close> of the horizon and the category of that
  row. Tab 1 is rendered whenever the batch is not empty, the AQI of its first row is
  numeric and the horizons are numeric.
\<close>

theorem worst_selection:
  assumes "main L secrets st cb dc hc = Page pg"
  shows "pg_table pg \<noteq> []
         \<and> sorted (map (\<lambda>r. bson_key (horizon_hours (doc r))) (pg_table pg))
         \<and> (\<forall>i j a b. i \<le> j \<and> j < length (pg_table pg)
               \<and> horizon_hours (doc (pg_table pg ! i)) = Number a
               \<and> horizon_hours (doc (pg_table pg ! j)) = Number b \<longrightarrow> a \<le> b)
         \<and> (\<exists>i<length (pg_table pg). \<exists>x.
               num_predicted_aqi_us (pg_table pg ! i) = Some x
               \<and> (\<forall>j<length (pg_table pg). \<forall>y.
                     num_predicted_aqi_us (pg_table pg ! j) = Some y \<longrightarrow> y \<le> x)
               \<and> (\<forall>j<i. \<forall>y. num_predicted_aqi_us (pg_table pg ! j) = Some y \<longrightarrow> y < x)
               \<and> py_int (Some x) = Inr (worst_aqi (pg_tab1 pg))
               \<and> py_int (num_horizon_hours (pg_table pg ! i)) = Inr (worst_horizon (pg_tab1 pg))
               \<and> worst_category (pg_tab1 pg) = category (doc (pg_table pg ! i)))
         \<and> (df \<noteq> [] \<and> num_predicted_aqi_us (df ! 0) \<noteq> None
              \<and> (\<forall>r\<in>set df. num_horizon_hours r \<noteq> None) \<longrightarrow> (\<exists>m. tab1 df = Inr m))"
proof -
  define t where "t = pg_table pg"
  define xs where "xs = map num_predicted_aqi_us t"
  from main_table [OF assms] have ne: "t \<noteq> []"
    and so: "sorted (map (\<lambda>r. bson_key (horizon_hours (doc r))) t)"
    and t1: "tab1 t = Inr (pg_tab1 pg)"
    by (simp_all add: t_def)
  from tab1_Inr [OF t1] obtain i where i: "idxmax xs = Some i"
    and wa: "py_int (num_predicted_aqi_us (t ! i)) = Inr (worst_aqi (pg_tab1 pg))"
    and wh: "py_int (num_horizon_hours (t ! i)) = Inr (worst_horizon (pg_tab1 pg))"
    and wc: "worst_category (pg_tab1 pg) = category (doc (t ! i))"
    unfolding xs_def by blast
  from idxmax_Some [OF i] obtain v where il': "i < length xs" and v: "xs ! i = Some v"
    and mx: "\<forall>j<length xs. \<forall>y. xs ! j = Some y \<longrightarrow> y \<le> v"
    and fi: "\<forall>j<i. \<forall>y. xs ! j = Some y \<longrightarrow> y < v"
    by blast
  have len: "length xs = length t" by (simp add: xs_def)
  have nth: "\<And>j. j < length t \<Longrightarrow> xs ! j = num_predicted_aqi_us (t ! j)"
    by (simp add: xs_def)
  from il' len have il: "i < length t" by simp
  have a: "num_predicted_aqi_us (t ! i) = Some v" using v nth il by simp
  have b: "\<forall>j<length t. \<forall>y. num_predicted_aqi_us (t ! j) = Some y \<longrightarrow> y \<le> v"
    using mx nth len by auto
  have c: "\<forall>j<i. \<forall>y. num_predicted_aqi_us (t ! j) = Some y \<longrightarrow> y < v"
    using fi nth il by auto
  have d: "py_int (Some v) = Inr (worst_aqi (pg_tab1 pg))" using wa a by simp
  have w: "\<exists>i<length t. \<exists>x.
               num_predicted_aqi_us (t ! i) = Some x
               \<and> (\<forall>j<length t. \<forall>y. num_predicted_aqi_us (t ! j) = Some y \<longrightarrow> y \<le> x)
               \<and> (\<forall>j<i. \<forall>y. num_predicted_aqi_us (t ! j) = Some y \<longrightarrow> y < x)
               \<and> py_int (Some x) = Inr (worst_aqi (pg_tab1 pg))
               \<and> py_int (num_horizon_hours (t ! i)) = Inr (worst_horizon (pg_tab1 pg))
               \<and> worst_category (pg_tab1 pg) = category (doc (t ! i))"
    using il a b c d wh wc by blast
  have n: "\<forall>i j a b. i \<le> j \<and> j < length t
               \<and> horizon_hours (doc (t ! i)) = Number a
               \<and> horizon_hours (doc (t ! j)) = Number b \<longrightarrow> a \<le> b"
    using sorted_numbers [OF so] by blast
  have r: "df \<noteq> [] \<and> num_predicted_aqi_us (df ! 0) \<noteq> None
              \<and> (\<forall>r\<in>set df. num_horizon_hours r \<noteq> None) \<longrightarrow> (\<exists>m. tab1 df = Inr m)"
    using tab1_returns [of df] by blast
  from ne so n w r show ?thesis unfolding t_def by blast
qed

theorem worst_selection_witness:
  "main demo_libs demo_secrets (Collection (rev demo_docs)) None None None = Page demo_page
   \<and> pg_table demo_page = demo_df
   \<and> demo_df \<noteq> []
   \<and> num_predicted_aqi_us (demo_df ! 0) = Some 80
   \<and> num_predicted_aqi_us (demo_df ! 2) = Some 210
   \<and> num_predicted_aqi_us (demo_df ! 4) = Some 210
   \<and> worst_aqi (pg_tab1 demo_page) = 210
   \<and> worst_horizon (pg_tab1 demo_page) = 3
   \<and> worst_category (pg_tab1 demo_page) = ''Very Unhealthy''
   \<and> tab1 demo_df = Inr (pg_tab1 demo_page)"
proof -
  have e: "pg_table demo_page = demo_df
   \<and> num_predicted_aqi_us (demo_df ! 0) = Some 80
   \<and> num_predicted_aqi_us (demo_df ! 2) = Some 210
   \<and> num_predicted_aqi_us (demo_df ! 4) = Some 210
   \<and> worst_aqi (pg_tab1 demo_page) = 210
   \<and> worst_horizon (pg_tab1 demo_page) = 3
   \<and> worst_category (pg_tab1 demo_page) = ''Very Unhealthy''
   \<and> tab1 demo_df = Inr (pg_tab1 demo_page)"
    by code_simp
  from worst_selection [OF demo_main] have "pg_table demo_page \<noteq> []" by blast
  with e demo_main show ?thesis by simp
qed

text \<open>
  The claim as stated, for every non-empty batch, fails on a batch whose first row has no
  numeric AQI: \<open>int\<close> of line 126 raises \<open>ValueError\<close> and no metric is shown.
\<close>

theorem worst_selection_counterexample:
  "load_latest_forecast (Collection null_docs) ''Karachi''
     = Inr (Some ''2026-01-26T09:00:00Z'', null_docs)
   \<and> null_docs \<noteq> []
   \<and> main demo_libs demo_secrets (Collection null_docs) None None None = Raised ValueError"
  by code_simp

section \<open>The lookup\<close>

lemma lookup_empty:
  "filter (\<lambda>r. dt_eq (target_dt_utc r) t) df = [] \<Longrightarrow> lookup df t = NoExactMatch"
  by (simp add: lookup_def)

lemma lookup_first:
  "filter (\<lambda>r. dt_eq (target_dt_utc r) t) df = r # rs \<Longrightarrow> lookup df t = Found r"
  by (simp add: lookup_def)

lemma show_result_NoExactMatch: "show_result NoExactMatch = Inr None"
  by (simp add: show_result_def)

lemma show_result_Found:
  assumes "num_predicted_aqi_us r = Some a" and "num_horizon_hours r = Some h"
  shows "\<exists>v. show_result (Found r) = Inr (Some v) \<and> rv_target_pk v = target_dt_pk r
           \<and> py_int (Some a) = Inr (rv_aqi v) \<and> py_int (Some h) = Inr (rv_horizon v)
           \<and> rv_category v = category (doc r)"
  using assms by (simp add: show_result_def py_int_def)

lemma render_again:
  assumes "render c b df base dc hc = Page pg"
    and "show_result (pv_result (tab2 df base dc' hc')) = Inr shown"
  shows "render c b df base dc' hc'
         = Page (pg\<lparr>pg_tab2 := tab2 df base dc' hc', pg_shown := shown\<rparr>)"
proof -
  from assms(1) obtain m where m: "tab1 df = Inr m"
    by (cases "tab1 df") (auto simp: render_def)
  from assms(1) m obtain sh where sh: "show_result (pv_result (tab2 df base dc hc)) = Inr sh"
    by (cases "show_result (pv_result (tab2 df base dc hc))") (auto simp: render_def Let_def)
  from assms(1) m sh have "pg = \<lparr>pg_city = c, pg_base_time = b,
                        pg_base_dt_pk = astimezone base PK_TZ,
                        pg_rows = length df, pg_table = df,
                        pg_tab1 = m, pg_tab2 = tab2 df base dc hc, pg_shown = sh\<rparr>"
    by (simp add: render_def Let_def)
  then show ?thesis using m assms(2) by (simp add: render_def Let_def)
qed

lemma render_fields:
  assumes "render c b df base dc hc = Page pg"
  shows "pg_base_time pg = b \<and> pg_city pg = c"
  using assms
  by (auto simp: render_def Let_def split: sum.splits)

lemma dup_main:
  "main demo_libs demo_secrets (Collection (rev dup_docs)) None None None = Page dup_page"
  by code_simp

lemma sorted_filter_head:
  assumes "sorted (map f xs)" and "filter P xs = r # rs"
  shows "\<forall>r'\<in>set rs. f r \<le> f r'"
proof -
  from assms(1) have "sorted (map f (filter P xs))" by (rule sorted_filter)
  then show ?thesis unfolding assms(2) by simp
qed

text \<open>
  Claim C6, as amended. On a rendered page, for whatever the user chooses next: if no row
  has the clamped instant, the lookup reports \<open>NoExactMatch\<close> and the page is rendered
  as before, tab 1 and table unchanged, with the message in place of a result; if one or
  more rows have it, the lookup returns the first of them, which no later matching row
  precedes in the loader's ascending order of \<open>horizon_hours\<close>, and, when the AQI and
  the horizon of that row are numeric, the page is rendered as before with the values of
  that row.
\<close>

theorem lookup_policy:
  assumes "main L secrets st cb dc hc = Page pg"
  shows "\<exists>base. to_dt_utc L (pg_base_time pg) = Some base
     \<and> pg_tab2 pg = tab2 (pg_table pg) base dc hc
     \<and> (\<forall>dc' hc'.
          (filter (\<lambda>r. dt_eq (target_dt_utc r)
                     (pv_picked_utc (tab2 (pg_table pg) base dc' hc'))) (pg_table pg) = []
           \<longrightarrow> pv_result (tab2 (pg_table pg) base dc' hc') = NoExactMatch
               \<and> main L secrets st cb dc' hc'
                   = Page (pg\<lparr>pg_tab2 := tab2 (pg_table pg) base dc' hc', pg_shown := None\<rparr>))
          \<and> (\<forall>r rs.
               filter (\<lambda>r. dt_eq (target_dt_utc r)
                     (pv_picked_utc (tab2 (pg_table pg) base dc' hc'))) (pg_table pg) = r # rs
               \<longrightarrow> pv_result (tab2 (pg_table pg) base dc' hc') = Found r
                   \<and> (\<forall>r'\<in>set rs. bson_key (horizon_hours (doc r))
                                      \<le> bson_key (horizon_hours (doc r')))
                   \<and> (num_predicted_aqi_us r \<noteq> None \<and> num_horizon_hours r \<noteq> None
                        \<longrightarrow> (\<exists>sh. main L secrets st cb dc' hc'
                                   = Page (pg\<lparr>pg_tab2 := tab2 (pg_table pg) base dc' hc',
                                              pg_shown := Some sh\<rparr>)
                                 \<and> rv_target_pk sh = target_dt_pk r
                                 \<and> rv_category sh = category (doc r)
                                 \<and> py_int (num_predicted_aqi_us r) = Inr (rv_aqi sh)
                                 \<and> py_int (num_horizon_hours r) = Inr (rv_horizon sh)))))"
proof -
  define c where "c = chosen_city secrets cb"
  from main_Page [OF assms] obtain b rows df base where
    base: "to_dt_utc L b = Some base"
    and r: "render c b df base dc hc = Page pg"
    and al: "\<And>dc' hc'. main L secrets st cb dc' hc' = render c b df base dc' hc'"
    unfolding c_def by blast
  from render_Page [OF r] have t: "pg_table pg = df" and t2: "pg_tab2 pg = tab2 df base dc hc"
    by simp_all
  from render_fields [OF r] have bt: "pg_base_time pg = b" by simp
  from main_table [OF assms] t
  have so: "sorted (map (\<lambda>r. bson_key (horizon_hours (doc r))) df)" by simp
  have step: "(filter (\<lambda>r. dt_eq (target_dt_utc r)
                     (pv_picked_utc (tab2 df base dc' hc'))) df = []
           \<longrightarrow> pv_result (tab2 df base dc' hc') = NoExactMatch
               \<and> main L secrets st cb dc' hc'
                   = Page (pg\<lparr>pg_tab2 := tab2 df base dc' hc', pg_shown := None\<rparr>))
          \<and> (\<forall>r rs.
               filter (\<lambda>r. dt_eq (target_dt_utc r)
                     (pv_picked_utc (tab2 df base dc' hc'))) df = r # rs
               \<longrightarrow> pv_result (tab2 df base dc' hc') = Found r
                   \<and> (\<forall>r'\<in>set rs. bson_key (horizon_hours (doc r))
                                      \<le> bson_key (horizon_hours (doc r')))
                   \<and> (num_predicted_aqi_us r \<noteq> None \<and> num_horizon_hours r \<noteq> None
                        \<longrightarrow> (\<exists>sh. main L secrets st cb dc' hc'
                                   = Page (pg\<lparr>pg_tab2 := tab2 df base dc' hc',
                                              pg_shown := Some sh\<rparr>)
                                 \<and> rv_target_pk sh = target_dt_pk r
                                 \<and> rv_category sh = category (doc r)
                                 \<and> py_int (num_predicted_aqi_us r) = Inr (rv_aqi sh)
                                 \<and> py_int (num_horizon_hours r) = Inr (rv_horizon sh))))"
    for dc' hc'
  proof (intro conjI impI allI)
    define v where "v = tab2 df base dc' hc'"
    have res: "pv_result v = lookup df (pv_picked_utc v)"
      unfolding v_def by (simp add: tab2_result)
    {
      assume "filter (\<lambda>r. dt_eq (target_dt_utc r) (pv_picked_utc (tab2 df base dc' hc'))) df = []"
      then have n: "pv_result v = NoExactMatch"
        unfolding res v_def [symmetric] by (rule lookup_empty)
      then show "pv_result (tab2 df base dc' hc') = NoExactMatch" by (simp add: v_def)
      from n have "show_result (pv_result (tab2 df base dc' hc')) = Inr None"
        by (simp add: v_def show_result_NoExactMatch)
      from render_again [OF r this] al [of dc' hc']
      show "main L secrets st cb dc' hc'
              = Page (pg\<lparr>pg_tab2 := tab2 df base dc' hc', pg_shown := None\<rparr>)"
        by simp
    }
    {
      fix r rs
      assume f: "filter (\<lambda>r. dt_eq (target_dt_utc r) (pv_picked_utc (tab2 df base dc' hc'))) df
                 = r # rs"
      then have fr: "pv_result v = Found r"
        unfolding res v_def [symmetric] by (rule lookup_first)
      then show "pv_result (tab2 df base dc' hc') = Found r" by (simp add: v_def)
      from sorted_filter_head [OF so f]
      show "\<forall>r'\<in>set rs. bson_key (horizon_hours (doc r)) \<le> bson_key (horizon_hours (doc r'))" .
      assume "num_predicted_aqi_us r \<noteq> None \<and> num_horizon_hours r \<noteq> None"
      then obtain a h where a: "num_predicted_aqi_us r = Some a" and h: "num_horizon_hours r = Some h"
        by auto
      from show_result_Found [OF a h] obtain sh where
        sh: "show_result (Found r) = Inr (Some sh)" and p: "rv_target_pk sh = target_dt_pk r"
        "py_int (Some a) = Inr (rv_aqi sh)" "py_int (Some h) = Inr (rv_horizon sh)"
        "rv_category sh = category (doc r)"
        by blast
      from sh fr have "show_result (pv_result (tab2 df base dc' hc')) = Inr (Some sh)"
        by (simp add: v_def)
      from render_again [OF r this] al [of dc' hc']
      have "main L secrets st cb dc' hc'
              = Page (pg\<lparr>pg_tab2 := tab2 df base dc' hc', pg_shown := Some sh\<rparr>)"
        by simp
      with p a h show "\<exists>sh. main L secrets st cb dc' hc'
                                   = Page (pg\<lparr>pg_tab2 := tab2 df base dc' hc',
                                              pg_shown := Some sh\<rparr>)
                                 \<and> rv_target_pk sh = target_dt_pk r
                                 \<and> rv_category sh = category (doc r)
                                 \<and> py_int (num_predicted_aqi_us r) = Inr (rv_aqi sh)
                                 \<and> py_int (num_horizon_hours r) = Inr (rv_horizon sh)"
        by auto
    }
  qed
  show ?thesis
    unfolding t bt using base t2 step by blast
qed

theorem lookup_policy_witness:
  "main demo_libs demo_secrets (Collection (rev dup_docs)) None None None = Page dup_page
   \<and> to_dt_utc demo_libs (pg_base_time dup_page) = Some demo_base
   \<and> pg_table dup_page = dup_df
   \<and> filter (\<lambda>r. dt_eq (target_dt_utc r)
          (pv_picked_utc (tab2 dup_df demo_base (Some 739642) (Some 18)))) dup_df = []
   \<and> pv_result (tab2 dup_df demo_base (Some 739642) (Some 18)) = NoExactMatch
   \<and> main demo_libs demo_secrets (Collection (rev dup_docs)) None (Some 739642) (Some 18)
       = Page (dup_page\<lparr>pg_tab2 := tab2 dup_df demo_base (Some 739642) (Some 18),
                        pg_shown := None\<rparr>)
   \<and> filter (\<lambda>r. dt_eq (target_dt_utc r)
          (pv_picked_utc (tab2 dup_df demo_base (Some 739642) (Some 17)))) dup_df
       = [dup_df ! 3, dup_df ! 4]
   \<and> pv_result (tab2 dup_df demo_base (Some 739642) (Some 17)) = Found (dup_df ! 3)
   \<and> main demo_libs demo_secrets (Collection (rev dup_docs)) None (Some 739642) (Some 17)
       = Page (dup_page\<lparr>pg_tab2 := tab2 dup_df demo_base (Some 739642) (Some 17),
                        pg_shown := Some \<lparr>rv_target_pk = target_dt_pk (dup_df ! 3), rv_aqi = 150,
                                           rv_category = ''Unhealthy for Sensitive Groups'',
                                           rv_horizon = 4\<rparr>\<rparr>)"
proof -
  have b: "to_dt_utc demo_libs (pg_base_time dup_page) = Some demo_base" by code_simp
  have t: "pg_table dup_page = dup_df" by (simp add: dup_page_def)
  have f1: "filter (\<lambda>r. dt_eq (target_dt_utc r)
          (pv_picked_utc (tab2 dup_df demo_base (Some 739642) (Some 18)))) dup_df = []"
    by code_simp
  have f2: "filter (\<lambda>r. dt_eq (target_dt_utc r)
          (pv_picked_utc (tab2 dup_df demo_base (Some 739642) (Some 17)))) dup_df
       = [dup_df ! 3, dup_df ! 4]"
    by code_simp
  have m2: "main demo_libs demo_secrets (Collection (rev dup_docs)) None (Some 739642) (Some 17)
       = Page (dup_page\<lparr>pg_tab2 := tab2 dup_df demo_base (Some 739642) (Some 17),
                        pg_shown := Some \<lparr>rv_target_pk = target_dt_pk (dup_df ! 3), rv_aqi = 150,
                                           rv_category = ''Unhealthy for Sensitive Groups'',
                                           rv_horizon = 4\<rparr>\<rparr>)"
    by code_simp
  from lookup_policy [OF dup_main] obtain base where
    base: "to_dt_utc demo_libs (pg_base_time dup_page) = Some base"
    and al: "\<forall>dc' hc'.
          (filter (\<lambda>r. dt_eq (target_dt_utc r)
                     (pv_picked_utc (tab2 (pg_table dup_page) base dc' hc'))) (pg_table dup_page) = []
           \<longrightarrow> pv_result (tab2 (pg_table dup_page) base dc' hc') = NoExactMatch
               \<and> main demo_libs demo_secrets (Collection (rev dup_docs)) None dc' hc'
                   = Page (dup_page\<lparr>pg_tab2 := tab2 (pg_table dup_page) base dc' hc',
                                     pg_shown := None\<rparr>))
          \<and> (\<forall>r rs.
               filter (\<lambda>r. dt_eq (target_dt_utc r)
                     (pv_picked_utc (tab2 (pg_table dup_page) base dc' hc'))) (pg_table dup_page)
                 = r # rs
               \<longrightarrow> pv_result (tab2 (pg_table dup_page) base dc' hc') = Found r)"
    by blast
  from base b have bb: "base = demo_base" by simp
  from al [rule_format, of "Some 739642" "Some 18"] f1
  have n: "pv_result (tab2 dup_df demo_base (Some 739642) (Some 18)) = NoExactMatch
     \<and> main demo_libs demo_secrets (Collection (rev dup_docs)) None (Some 739642) (Some 18)
       = Page (dup_page\<lparr>pg_tab2 := tab2 dup_df demo_base (Some 739642) (Some 18),
                        pg_shown := None\<rparr>)"
    unfolding bb t by blast
  from al [rule_format, of "Some 739642" "Some 17"] f2
  have f: "pv_result (tab2 dup_df demo_base (Some 739642) (Some 17)) = Found (dup_df ! 3)"
    unfolding bb t by blast
  from dup_main b t f1 f2 m2 n f show ?thesis by blast
qed

text \<open>
  The claim as stated fails where the first of several matching rows has no numeric AQI:
  with the rows of horizons 2 and 3 both at 11:00Z and a null AQI at horizon 2, choosing
  16:00 Pakistan time selects the row of horizon 2, and \<open>int\<close> of line 226 raises
  \<open>ValueError\<close>.
\<close>

theorem lookup_policy_counterexample:
  "main demo_libs demo_secrets (Collection (rev dup_docs)) None None None = Page dup_page
   \<and> filter (\<lambda>r. dt_eq (target_dt_utc r)
          (pv_picked_utc (tab2 dup_df demo_base (Some 739642) (Some 16)))) dup_df
       = [dup_df ! 1, dup_df ! 2]
   \<and> main demo_libs demo_secrets (Collection (rev dup_docs)) None (Some 739642) (Some 16)
       = Raised ValueError"
  by code_simp

end
